theory Spec2Isabelle
  imports Complex_Main
begin

section \<open>JavaScript values of the scheduler\<close>

text \<open>
  Every value that flows through \<^verbatim>\<open>src/index.ts\<close> is a JavaScript number or
  \<^verbatim>\<open>undefined\<close> (the result of reading an array slot that does not exist, or an
  absent configuration field).  In the operations of this section a finite number is an
  exact real: rounding, overflow to infinity and the sign of zero are left out.  The
  non-finite numbers \<^verbatim>\<open>NaN\<close>, \<^verbatim>\<open>Infinity\<close> and \<^verbatim>\<open>-Infinity\<close> are kept, because
  division by zero, \<^verbatim>\<open>Math.pow\<close> on a negative base and arithmetic on
  \<^verbatim>\<open>undefined\<close> produce them instead of raising.  The double-precision operations, which
  round every result, follow in their own section; they decide the properties that rounding
  or overflow breaks.
\<close>

datatype jsval = Undefined | NaN | PInf | NInf | Fin real

text \<open>Unary minus; \<^verbatim>\<open>undefined\<close> is first converted to \<^verbatim>\<open>NaN\<close>.\<close>

fun js_neg :: "jsval \<Rightarrow> jsval" where
  "js_neg (Fin a) = Fin (- a)"
| "js_neg PInf = NInf"
| "js_neg NInf = PInf"
| "js_neg _ = NaN"

text \<open>The operator \<^verbatim>\<open>+\<close> on numbers.\<close>

fun js_add :: "jsval \<Rightarrow> jsval \<Rightarrow> jsval" where
  "js_add (Fin a) (Fin b) = Fin (a + b)"
| "js_add (Fin a) PInf = PInf"
| "js_add (Fin a) NInf = NInf"
| "js_add PInf (Fin b) = PInf"
| "js_add NInf (Fin b) = NInf"
| "js_add PInf PInf = PInf"
| "js_add NInf NInf = NInf"
| "js_add _ _ = NaN"

text \<open>The operator \<^verbatim>\<open>-\<close>.\<close>

definition js_sub :: "jsval \<Rightarrow> jsval \<Rightarrow> jsval" where
  "js_sub a b = js_add a (js_neg b)"

text \<open>An infinity with the sign of a non-zero real.\<close>

definition inf_of_sign :: "real \<Rightarrow> jsval" where
  "inf_of_sign a = (if a = 0 then NaN else if 0 < a then PInf else NInf)"

text \<open>The operator \<^verbatim>\<open>*\<close>: infinity times zero is \<^verbatim>\<open>NaN\<close>.\<close>

fun js_mul :: "jsval \<Rightarrow> jsval \<Rightarrow> jsval" where
  "js_mul (Fin a) (Fin b) = Fin (a * b)"
| "js_mul (Fin a) PInf = inf_of_sign a"
| "js_mul (Fin a) NInf = inf_of_sign (- a)"
| "js_mul PInf (Fin b) = inf_of_sign b"
| "js_mul NInf (Fin b) = inf_of_sign (- b)"
| "js_mul PInf PInf = PInf"
| "js_mul NInf NInf = PInf"
| "js_mul PInf NInf = NInf"
| "js_mul NInf PInf = NInf"
| "js_mul _ _ = NaN"

text \<open>
  The operator \<^verbatim>\<open>/\<close>: a non-zero number over zero is an infinity, zero over zero is
  \<^verbatim>\<open>NaN\<close>, a finite number over an infinity is zero.  A zero divisor counts as
  \<^verbatim>\<open>+0\<close>.
\<close>

fun js_div :: "jsval \<Rightarrow> jsval \<Rightarrow> jsval" where
  "js_div (Fin a) (Fin b) = (if b = 0 then inf_of_sign a else Fin (a / b))"
| "js_div (Fin a) PInf = Fin 0"
| "js_div (Fin a) NInf = Fin 0"
| "js_div PInf (Fin b) = (if 0 \<le> b then PInf else NInf)"
| "js_div NInf (Fin b) = (if 0 \<le> b then NInf else PInf)"
| "js_div _ _ = NaN"

text \<open>\<^verbatim>\<open>Math.exp\<close>.\<close>

fun js_exp :: "jsval \<Rightarrow> jsval" where
  "js_exp (Fin a) = Fin (exp a)"
| "js_exp PInf = PInf"
| "js_exp NInf = Fin 0"
| "js_exp _ = NaN"

text \<open>
  \<^verbatim>\<open>Math.pow\<close> on a finite base and a finite non-zero exponent: a positive base
  is the real power, a zero base gives zero or infinity, a negative base has a result only
  for an integer exponent.
\<close>

definition pow_fin :: "real \<Rightarrow> real \<Rightarrow> jsval" where
  "pow_fin a y =
     (if 0 < a then Fin (a powr y)
      else if a = 0 then (if 0 < y then Fin 0 else PInf)
      else if y = of_int \<lfloor>y\<rfloor>
        then Fin ((if even \<lfloor>y\<rfloor> then 1 else - 1) * ((- a) powr y))
      else NaN)"

text \<open>
  \<^verbatim>\<open>Math.pow\<close>: any base to the power zero is one (also \<^verbatim>\<open>NaN\<close>); a
  \<^verbatim>\<open>NaN\<close> exponent gives \<^verbatim>\<open>NaN\<close>; modulus one to an infinite power is
  \<^verbatim>\<open>NaN\<close>.
\<close>

fun js_pow :: "jsval \<Rightarrow> jsval \<Rightarrow> jsval" where
  "js_pow x (Fin y) =
     (if y = 0 then Fin 1
      else case x of
        Fin a \<Rightarrow> pow_fin a y
      | PInf \<Rightarrow> (if 0 < y then PInf else Fin 0)
      | NInf \<Rightarrow> (if 0 < y
                  then (if y = of_int \<lfloor>y\<rfloor> \<and> odd \<lfloor>y\<rfloor> then NInf else PInf)
                  else Fin 0)
      | _ \<Rightarrow> NaN)"
| "js_pow x PInf =
     (case x of
        Fin a \<Rightarrow> (if 1 < \<bar>a\<bar> then PInf else if \<bar>a\<bar> = 1 then NaN else Fin 0)
      | PInf \<Rightarrow> PInf
      | NInf \<Rightarrow> PInf
      | _ \<Rightarrow> NaN)"
| "js_pow x NInf =
     (case x of
        Fin a \<Rightarrow> (if 1 < \<bar>a\<bar> then Fin 0 else if \<bar>a\<bar> = 1 then NaN else PInf)
      | PInf \<Rightarrow> Fin 0
      | NInf \<Rightarrow> Fin 0
      | _ \<Rightarrow> NaN)"
| "js_pow x _ = NaN"

text \<open>The order of the numbers; nothing compares with \<^verbatim>\<open>NaN\<close>.\<close>

fun js_less :: "jsval \<Rightarrow> jsval \<Rightarrow> bool" where
  "js_less (Fin a) (Fin b) = (a < b)"
| "js_less (Fin a) PInf = True"
| "js_less NInf (Fin b) = True"
| "js_less NInf PInf = True"
| "js_less _ _ = False"

fun is_nan :: "jsval \<Rightarrow> bool" where
  "is_nan Undefined = True"
| "is_nan NaN = True"
| "is_nan _ = False"

text \<open>\<^verbatim>\<open>Math.max\<close> and \<^verbatim>\<open>Math.min\<close> of two arguments: \<^verbatim>\<open>NaN\<close> if either is.\<close>

definition js_max :: "jsval \<Rightarrow> jsval \<Rightarrow> jsval" where
  "js_max a b = (if is_nan a \<or> is_nan b then NaN else if js_less a b then b else a)"

definition js_min :: "jsval \<Rightarrow> jsval \<Rightarrow> jsval" where
  "js_min a b = (if is_nan a \<or> is_nan b then NaN else if js_less b a then b else a)"

text \<open>
  Truthiness, as \<^verbatim>\<open>||\<close> tests it: \<^verbatim>\<open>undefined\<close>, \<^verbatim>\<open>NaN\<close> and zero are falsy,
  every other number is truthy.
\<close>

fun truthy :: "jsval \<Rightarrow> bool" where
  "truthy Undefined = False"
| "truthy NaN = False"
| "truthy (Fin a) = (a \<noteq> 0)"
| "truthy _ = True"

text \<open>
  Reading \<^verbatim>\<open>a[i]\<close> for an integer \<open>i\<close>: a slot that does not exist reads as
  \<^verbatim>\<open>undefined\<close>.
\<close>

definition js_index :: "jsval list \<Rightarrow> int \<Rightarrow> jsval" where
  "js_index a i = (if 0 \<le> i \<and> nat i < length a then a ! nat i else Undefined)"

section \<open>Data model\<close>

text \<open>
  \<^verbatim>\<open>DifficultyAndStability\<close> and its extension \<^verbatim>\<open>Card\<close>.  A function that takes a
  \<^verbatim>\<open>DifficultyAndStability\<close> accepts every record that extends it, as in the source.
\<close>

record DifficultyAndStability =
  D :: jsval
  S :: jsval

record Card = DifficultyAndStability +
  I :: jsval

text \<open>The enum \<^verbatim>\<open>Grade\<close> is a number at run time; the model takes the integers.\<close>

type_synonym Grade = int

definition AGAIN :: Grade where "AGAIN = 1"
definition HARD :: Grade where "HARD = 2"
definition GOOD :: Grade where "GOOD = 3"
definition EASY :: Grade where "EASY = 4"

text \<open>
  \<^verbatim>\<open>DeckParams\<close>.  The field \<open>w\<close> is \<open>None\<close> when the property is absent or
  \<^verbatim>\<open>undefined\<close>; an absent retention rate is \<open>Undefined\<close>.
\<close>

record DeckParams =
  requestedRetentionRate :: jsval
  w :: "jsval list option"

definition DECAY :: jsval where
  "DECAY = Fin (- 0.5)"

definition FACTOR :: jsval where
  "FACTOR = js_div (Fin 19) (Fin 81)"

definition DEFAULT_W :: "jsval list" where
  "DEFAULT_W = map Fin
     [0.4, 0.6, 2.4, 5.8, 4.93, 0.94, 0.86, 0.01, 1.49, 0.14, 0.94, 2.18, 0.05,
      0.34, 1.26, 0.29, 2.61]"

definition DEFAULT_PARAMS :: DeckParams where
  "DEFAULT_PARAMS = \<lparr>requestedRetentionRate = Fin 0.9, w = Some DEFAULT_W\<rparr>"

section \<open>The deck\<close>

text \<open>
  \<^verbatim>\<open>createDeck\<close> binds two constants, the weights and the retention rate, and returns
  two closures over them.  The record \<open>Deck\<close> is that closure environment: its fields
  \<open>weights\<close> and \<open>retention\<close> are the constants \<^verbatim>\<open>w\<close> and
  \<^verbatim>\<open>requestedRetentionRate\<close> of the source, whose names the fields of
  \<open>DeckParams\<close> already carry.  For the same reason the parameters \<^verbatim>\<open>D\<close>,
  \<^verbatim>\<open>S\<close>, \<^verbatim>\<open>G\<close>, \<^verbatim>\<open>R\<close> and \<^verbatim>\<open>card\<close> of the source functions are
  written in lower case (\<open>d\<close>, \<open>s\<close>, \<open>g\<close>, \<open>r\<close>, \<open>c\<close>), and the inner
  functions take the weights as their first argument.
\<close>

record Deck =
  weights :: "jsval list"
  retention :: jsval

text \<open>
  \<^verbatim>\<open>createDeck(params = DEFAULT_PARAMS)\<close>: an omitted argument is \<open>None\<close>.  An array
  is always truthy, so \<^verbatim>\<open>params.w || DEFAULT_PARAMS.w\<close> falls back only when the field
  is absent.
\<close>

definition createDeck :: "DeckParams option \<Rightarrow> Deck" where
  "createDeck params =
     (let p = (case params of None \<Rightarrow> DEFAULT_PARAMS | Some q \<Rightarrow> q) in
      \<lparr>weights = (case w p of Some a \<Rightarrow> a | None \<Rightarrow> the (w DEFAULT_PARAMS)),
       retention = (if truthy (requestedRetentionRate p) then requestedRetentionRate p
                    else requestedRetentionRate DEFAULT_PARAMS)\<rparr>)"

definition retrievability :: "jsval \<Rightarrow> jsval \<Rightarrow> jsval" where
  "retrievability t s = js_pow (js_add (Fin 1) (js_mul FACTOR (js_div t s))) DECAY"

definition nextInterval :: "jsval \<Rightarrow> jsval \<Rightarrow> jsval" where
  "nextInterval r s =
     js_mul (js_div s FACTOR) (js_sub (js_pow r (js_div (Fin 1) DECAY)) (Fin 1))"

definition initialStability :: "jsval list \<Rightarrow> Grade \<Rightarrow> jsval" where
  "initialStability ws g = js_index ws (g - 1)"

definition initialDifficulty :: "jsval list \<Rightarrow> Grade \<Rightarrow> jsval" where
  "initialDifficulty ws g =
     (let val = js_add (js_index ws 4) (js_mul (Fin (of_int (g - 3))) (js_index ws 5))
      in js_max (Fin 1) (js_min (Fin 10) val))"

definition nextDifficulty :: "jsval list \<Rightarrow> jsval \<Rightarrow> Grade \<Rightarrow> jsval" where
  "nextDifficulty ws d g =
     (let val = js_add (js_mul (js_index ws 7) (initialDifficulty ws 3))
                  (js_mul (js_sub (Fin 1) (js_index ws 7))
                     (js_sub d (js_mul (js_index ws 6) (Fin (of_int (g - 3))))))
      in js_max (Fin 1) (js_min (Fin 10) val))"

definition nextStabilityAfterRecall ::
  "jsval list \<Rightarrow> jsval \<Rightarrow> jsval \<Rightarrow> jsval \<Rightarrow> Grade \<Rightarrow> jsval" where
  "nextStabilityAfterRecall ws d s r g =
     (let hard_penalty = (if HARD = g then js_index ws 15 else Fin 1);
          easy_bound = (if EASY = g then js_index ws 16 else Fin 1)
      in js_mul s
           (js_add (Fin 1)
              (js_mul
                 (js_mul
                    (js_mul
                       (js_mul
                          (js_mul (js_exp (js_index ws 8)) (js_sub (Fin 11) d))
                          (js_pow s (js_neg (js_index ws 9))))
                       (js_sub (js_exp (js_mul (js_sub (Fin 1) r) (js_index ws 10))) (Fin 1)))
                    hard_penalty)
                 easy_bound)))"

definition nextStabilityAfterForgetting ::
  "jsval list \<Rightarrow> jsval \<Rightarrow> jsval \<Rightarrow> jsval \<Rightarrow> jsval" where
  "nextStabilityAfterForgetting ws d s r =
     js_mul
       (js_mul
          (js_mul (js_index ws 11) (js_pow d (js_neg (js_index ws 12))))
          (js_sub (js_pow (js_add s (Fin 1)) (js_index ws 13)) (Fin 1)))
       (js_exp (js_mul (js_sub (Fin 1) r) (js_index ws 14)))"

definition newCard :: "Deck \<Rightarrow> Grade \<Rightarrow> Card" where
  "newCard dk grade =
     (let d = initialDifficulty (weights dk) grade;
          s = initialStability (weights dk) grade;
          i = nextInterval (retention dk) s
      in \<lparr>D = d, S = s, I = i\<rparr>)"

definition gradeCard ::
  "Deck \<Rightarrow> 'a DifficultyAndStability_scheme \<Rightarrow> jsval \<Rightarrow> Grade \<Rightarrow> Card" where
  "gradeCard dk c daysSinceReview grade =
     (let currentRetrievability = retrievability daysSinceReview (S c);
          d = nextDifficulty (weights dk) (D c) grade;
          s = (if grade = AGAIN
               then nextStabilityAfterForgetting (weights dk) d (S c) currentRetrievability
               else nextStabilityAfterRecall (weights dk) d (S c) currentRetrievability grade);
          i = nextInterval (retention dk) s
      in \<lparr>D = d, S = s, I = i\<rparr>)"

section \<open>Well-formed weight vectors\<close>



section \<open>Double-precision arithmetic\<close>
















section \<open>Calls with an object argument\<close>





section \<open>Evaluation on finite numbers\<close>

declare js_pow.simps [simp del]

lemma js_sub_Fin [simp]: "js_sub (Fin a) (Fin b) = Fin (a - b)"
  by (simp add: js_sub_def)

lemma FACTOR_Fin: "FACTOR = Fin (19 / 81)"
  by (simp add: FACTOR_def)

lemma js_pow_pos: "0 < a \<Longrightarrow> js_pow (Fin a) (Fin y) = Fin (a powr y)"
  by (simp add: js_pow.simps pow_fin_def)

lemma clamp_Fin: "js_max (Fin 1) (js_min (Fin 10) (Fin v)) = Fin (max 1 (min 10 v))"
  by (simp add: js_max_def js_min_def max_def min_def)


lemma DEFAULT_W_index:
  "js_index DEFAULT_W 0 = Fin 0.4" "js_index DEFAULT_W 1 = Fin 0.6"
  "js_index DEFAULT_W 2 = Fin 2.4" "js_index DEFAULT_W 3 = Fin 5.8"
  "js_index DEFAULT_W 4 = Fin 4.93" "js_index DEFAULT_W 5 = Fin 0.94"
  "js_index DEFAULT_W 6 = Fin 0.86" "js_index DEFAULT_W 7 = Fin 0.01"
  "js_index DEFAULT_W 8 = Fin 1.49" "js_index DEFAULT_W 9 = Fin 0.14"
  "js_index DEFAULT_W 10 = Fin 0.94" "js_index DEFAULT_W 11 = Fin 2.18"
  "js_index DEFAULT_W 12 = Fin 0.05" "js_index DEFAULT_W 13 = Fin 0.34"
  "js_index DEFAULT_W 14 = Fin 1.26" "js_index DEFAULT_W 15 = Fin 0.29"
  "js_index DEFAULT_W 16 = Fin 2.61"
  by (simp_all add: js_index_def DEFAULT_W_def)


lemma createDeck_default:
  "createDeck None = \<lparr>weights = DEFAULT_W, retention = Fin 0.9\<rparr>"
  by (simp add: createDeck_def DEFAULT_PARAMS_def)

section \<open>Rounding to double precision\<close>
















section \<open>Retrievability and interval\<close>

lemma retrievability_Fin:
  assumes "0 < s" "0 \<le> t"
  shows "retrievability (Fin t) (Fin s) = Fin ((1 + 19 / 81 * (t / s)) powr (- (1 / 2)))"
proof -
  have "0 < 1 + 19 / 81 * (t / s)" using assms by (simp add: add_pos_nonneg)
  then show ?thesis using assms
    by (simp add: retrievability_def FACTOR_Fin DECAY_def js_pow_pos)
qed

lemma nextInterval_Fin:
  assumes "0 < r"
  shows "nextInterval (Fin r) (Fin s) = Fin (s / (19 / 81) * (r powr (- 2) - 1))"
  using assms by (simp add: nextInterval_def FACTOR_Fin DECAY_def js_pow_pos)

lemma powr_neg2_neg_half: "0 < (r::real) \<Longrightarrow> (r powr (- 2)) powr (- (1 / 2)) = r"
  by (simp add: powr_powr)

lemma powr_neg2: "0 < (r::real) \<Longrightarrow> r powr (- 2) = 1 / r\<^sup>2"
  by (simp add: powr_minus divide_inverse)

lemma retrievability_nextInterval:
  assumes "0 < s" "0 < r" "r \<le> 1"
  shows "retrievability (nextInterval (Fin r) (Fin s)) (Fin s) = Fin r"
proof -
  have "r\<^sup>2 \<le> 1" using assms by (simp add: power_le_one)
  moreover have "0 < r\<^sup>2" using assms by simp
  ultimately have ge: "1 \<le> r powr (- 2)"
    using assms by (simp add: powr_neg2 del: powr_minus)
  have nn: "0 \<le> s / (19 / 81) * (r powr (- 2) - 1)" using assms ge by simp
  have "1 + 19 / 81 * (s / (19 / 81) * (r powr (- 2) - 1) / s) = r powr (- 2)"
    using assms by (simp add: field_simps)
  then show ?thesis
    using assms nn by (simp add: nextInterval_Fin retrievability_Fin powr_neg2_neg_half)
qed

lemma nextInterval_reference: "nextInterval (Fin 0.9) (Fin s) = Fin s"
  by (simp add: nextInterval_Fin powr_neg2 field_simps)

lemma retrievability_at_stability:
  "0 < s \<Longrightarrow> retrievability (Fin s) (Fin s) = Fin 0.9"
  using retrievability_nextInterval [of s "0.9"] by (simp add: nextInterval_reference)




section \<open>Difficulty\<close>




section \<open>Stability\<close>

lemma recall_default_Fin:
  assumes "0 < s"
  shows "nextStabilityAfterRecall DEFAULT_W (Fin d) (Fin s) (Fin r) g =
    Fin (s * (1 + exp 1.49 * (11 - d) * s powr (- 0.14) * (exp ((1 - r) * 0.94) - 1)
                 * (if g = 2 then 0.29 else 1) * (if g = 4 then 2.61 else 1)))"
  using assms
  by (simp add: nextStabilityAfterRecall_def DEFAULT_W_index js_pow_pos HARD_def EASY_def)


lemma recall_growth_nonneg:
  assumes "d \<le> 10" "0 < s" "r \<le> 1"
  shows "0 \<le> exp 1.49 * (11 - d) * s powr (- 0.14) * (exp ((1 - r) * 0.94) - 1)
                 * (if g = 2 then 0.29 else 1) * (if g = 4 then 2.61 else (1::real))"
proof -
  have "0 \<le> exp ((1 - r) * 0.94) - 1" using assms by simp
  moreover have "0 \<le> 11 - d" using assms by simp
  moreover have "0 \<le> s powr (- 0.14)" by simp
  moreover have "0 \<le> (if g = 2 then 0.29 else (1::real))" by simp
  moreover have "0 \<le> (if g = 4 then 2.61 else (1::real))" by simp
  moreover have "0 \<le> exp (1.49::real)" by simp
  ultimately show ?thesis by (intro mult_nonneg_nonneg)
qed

lemma recall_default_ge:
  assumes "d \<le> 10" "0 < s" "r \<le> 1"
  shows "\<exists>x. nextStabilityAfterRecall DEFAULT_W (Fin d) (Fin s) (Fin r) g = Fin x \<and> s \<le> x"
proof -
  let ?k = "exp 1.49 * (11 - d) * s powr (- 0.14) * (exp ((1 - r) * 0.94) - 1)
                 * (if g = 2 then 0.29 else 1) * (if g = 4 then 2.61 else (1::real))"
  have "0 \<le> ?k" by (rule recall_growth_nonneg [OF assms])
  then have "s * 1 \<le> s * (1 + ?k)" using assms(2) by (intro mult_left_mono) simp_all
  then have "s \<le> s * (1 + ?k)" by simp
  moreover have "nextStabilityAfterRecall DEFAULT_W (Fin d) (Fin s) (Fin r) g = Fin (s * (1 + ?k))"
    by (rule recall_default_Fin [OF assms(2)])
  ultimately show ?thesis by blast
qed





text \<open>
  Claim C7.  With the reference weights, a difficulty in \<open>[1, 10]\<close>, a stability
  \<open>s > 0\<close>, a retrievability in \<open>(0, 1]\<close> and a grade \<open>HARD\<close>, \<open>GOOD\<close> or
  \<open>EASY\<close>, the stability after recall is a real number not below \<open>s\<close>.  Only
  \<open>d \<le> 10\<close>, \<open>s > 0\<close> and \<open>r \<le> 1\<close> are used.
\<close>

theorem recall_never_decreases_stability:
  assumes "d \<le> 10" "0 < s" "r \<le> 1"
  shows "\<exists>x. nextStabilityAfterRecall DEFAULT_W (Fin d) (Fin s) (Fin r) g = Fin x \<and> s \<le> x"
  by (rule recall_default_ge [OF assms])

theorem recall_never_decreases_stability_witness:
  "\<exists>x. nextStabilityAfterRecall DEFAULT_W (Fin 4.93) (Fin 2.4) (Fin 0.9) EASY = Fin x
       \<and> 2.4 \<le> x"
  using recall_never_decreases_stability [of "4.93" "2.4" "0.9" EASY] by simp

section \<open>Rational bounds for the exponential and for real powers\<close>

text \<open>
  The end-to-end scenario needs the values of \<open>exp\<close> and \<open>powr\<close> at a few
  points.  They are enclosed between rationals by the Maclaurin series with its remainder and
  by raising both sides to an integer power.
\<close>

lemma exp_taylor_lower:
  fixes x :: real
  assumes "0 \<le> x"
  shows "(\<Sum>m<n. x ^ m / fact m) \<le> exp x"
proof -
  obtain t where "exp x = (\<Sum>m<n. x ^ m / fact m) + (exp t / fact n) * x ^ n"
    using Maclaurin_exp_le by blast
  moreover have "0 \<le> (exp t / fact n) * x ^ n" using assms by simp
  ultimately show ?thesis by linarith
qed

lemma exp_taylor_upper:
  fixes x :: real
  assumes "0 \<le> x" "x ^ n < fact n"
  shows "exp x \<le> (\<Sum>m<n. x ^ m / fact m) / (1 - x ^ n / fact n)"
proof -
  obtain t where t: "\<bar>t\<bar> \<le> \<bar>x\<bar>"
    and e: "exp x = (\<Sum>m<n. x ^ m / fact m) + (exp t / fact n) * x ^ n"
    using Maclaurin_exp_le by blast
  have "exp t \<le> exp x" using t assms by simp
  then have "(exp t / fact n) * x ^ n \<le> (exp x / fact n) * x ^ n"
    using assms by (intro mult_right_mono divide_right_mono) simp_all
  then have "exp x - (exp x / fact n) * x ^ n \<le> (\<Sum>m<n. x ^ m / fact m)"
    using e by linarith
  moreover have "exp x * (1 - x ^ n / fact n) = exp x - (exp x / fact n) * x ^ n"
    by (simp add: algebra_simps)
  ultimately have "exp x * (1 - x ^ n / fact n) \<le> (\<Sum>m<n. x ^ m / fact m)"
    by simp
  moreover have "0 < 1 - x ^ n / fact n" using assms(2) by simp
  ultimately show ?thesis by (simp add: pos_le_divide_eq)
qed

lemma taylor14:
  fixes x :: real
  shows "(\<Sum>m<14. x ^ m / fact m) =
     1 + x * (1 + x / 2 * (1 + x / 3 * (1 + x / 4 * (1 + x / 5 * (1 + x / 6 * (1 + x / 7 *
     (1 + x / 8 * (1 + x / 9 * (1 + x / 10 * (1 + x / 11 * (1 + x / 12 * (1 + x / 13))))))))))))"
  by (simp add: eval_nat_numeral field_simps)

lemma exp_149_lower: "4.437095 \<le> exp (1.49::real)"
proof -
  have "(4.437095::real) \<le> (\<Sum>m<14. 1.49 ^ m / fact m)"
    unfolding taylor14 by simp
  also have "\<dots> \<le> exp 1.49" by (rule exp_taylor_lower) simp
  finally show ?thesis .
qed

lemma exp_149_upper: "exp (1.49::real) \<le> 4.437096"
proof -
  have "exp (1.49::real) \<le> (\<Sum>m<14. 1.49 ^ m / fact m) / (1 - 1.49 ^ 14 / fact 14)"
    by (rule exp_taylor_upper) (simp_all add: fact_numeral power_divide)
  also have "\<dots> \<le> 4.437096"
    unfolding taylor14 by (simp add: fact_numeral power_divide)
  finally show ?thesis .
qed

lemma powr_lower_bound:
  fixes a b e n :: real
  assumes "0 < n" "0 \<le> b" "b powr n \<le> a powr (e * n)"
  shows "b \<le> a powr e"
proof (rule ccontr)
  assume "\<not> b \<le> a powr e"
  then have "a powr e < b" by simp
  then have "(a powr e) powr n < b powr n"
    using assms(1) by (intro powr_less_mono2) simp_all
  then show False using assms(3) by (simp add: powr_powr)
qed

lemma powr_upper_bound:
  fixes a b e n :: real
  assumes "0 < n" "0 \<le> b" "a powr (e * n) \<le> b powr n"
  shows "a powr e \<le> b"
proof (rule ccontr)
  assume "\<not> a powr e \<le> b"
  then have "b < a powr e" by simp
  then have "b powr n < (a powr e) powr n"
    using assms(1,2) by (intro powr_less_mono2) simp_all
  then show False using assms(3) by (simp add: powr_powr)
qed

lemma powr_24_lower: "0.884647 \<le> (2.4::real) powr (- 0.14)"
  by (rule powr_lower_bound [where n = 50]) (simp_all add: powr_minus power_divide)

lemma powr_24_upper: "(2.4::real) powr (- 0.14) \<le> 0.884648"
  by (rule powr_upper_bound [where n = 50]) (simp_all add: powr_minus power_divide)

lemma retr_2_lower: "0.914597 \<le> (1 + 19 / 81 * (2 / 2.4)) powr (- (1 / 2) :: real)"
  by (rule powr_lower_bound [where n = 2]) (simp_all add: power_divide)

lemma retr_2_upper: "(1 + 19 / 81 * (2 / 2.4)) powr (- (1 / 2) :: real) \<le> 0.914598"
  by (rule powr_upper_bound [where n = 2]) (simp_all add: power_divide)

lemma exp_small_lower:
  fixes y :: real
  assumes "0 \<le> y"
  shows "y * (1 + y / 2 * (1 + y / 3 * (1 + y / 4))) \<le> exp y - 1"
proof -
  have "(\<Sum>m<5. y ^ m / fact m) \<le> exp y" by (rule exp_taylor_lower [OF assms])
  moreover have "(\<Sum>m<5. y ^ m / fact m) = 1 + y * (1 + y / 2 * (1 + y / 3 * (1 + y / 4)))"
    by (simp add: eval_nat_numeral field_simps)
  ultimately show ?thesis by simp
qed

lemma exp_small_upper:
  fixes y :: real
  assumes "0 \<le> y" "y ^ 5 < 120"
  shows "exp y - 1 \<le> (1 + y * (1 + y / 2 * (1 + y / 3 * (1 + y / 4)))) / (1 - y ^ 5 / 120) - 1"
proof -
  have "y ^ 5 < fact 5" using assms(2) by (simp add: fact_numeral)
  then have "exp y \<le> (\<Sum>m<5. y ^ m / fact m) / (1 - y ^ 5 / fact 5)"
    by (rule exp_taylor_upper [OF assms(1)])
  moreover have "(\<Sum>m<5. y ^ m / fact m) = 1 + y * (1 + y / 2 * (1 + y / 3 * (1 + y / 4)))"
    by (simp add: eval_nat_numeral field_simps)
  ultimately show ?thesis by (simp add: fact_numeral)
qed

lemma growth_bounds:
  fixes e p x x1 x2 :: real
  assumes "4.437095 \<le> e" "e \<le> 4.437096" "0.884647 \<le> p" "p \<le> 0.884648"
    and "0 \<le> x1" "x1 \<le> x" "x \<le> x2"
  shows "2.4 * (1 + 4.437095 * (11 - 4.0786) * 0.884647 * x1 * 2.61)
           \<le> 2.4 * (1 + e * (11 - 4.0786) * p * x * 2.61)"
    and "2.4 * (1 + e * (11 - 4.0786) * p * x * 2.61)
           \<le> 2.4 * (1 + 4.437096 * (11 - 4.0786) * 0.884648 * x2 * 2.61)"
proof -
  have "4.437095 * (11 - 4.0786) * 0.884647 * x1 \<le> e * (11 - 4.0786) * p * x"
    using assms by (intro mult_mono) simp_all
  then show "2.4 * (1 + 4.437095 * (11 - 4.0786) * 0.884647 * x1 * 2.61)
           \<le> 2.4 * (1 + e * (11 - 4.0786) * p * x * 2.61)" by simp
  have "e * (11 - 4.0786) * p * x \<le> 4.437096 * (11 - 4.0786) * 0.884648 * x2"
    using assms by (intro mult_mono) simp_all
  then show "2.4 * (1 + e * (11 - 4.0786) * p * x * 2.61)
           \<le> 2.4 * (1 + 4.437096 * (11 - 4.0786) * 0.884648 * x2 * 2.61)" by simp
qed

lemma growth_factor_2:
  fixes r :: real
  assumes "0.914597 \<le> r" "r \<le> 0.914598"
  shows "0.083588 \<le> exp ((1 - r) * 0.94) - 1" "exp ((1 - r) * 0.94) - 1 \<le> 0.083590"
proof -
  let ?y1 = "(1 - 0.914598) * 0.94 :: real" and ?y2 = "(1 - 0.914597) * 0.94 :: real"
  have "0.083588 \<le> ?y1 * (1 + ?y1 / 2 * (1 + ?y1 / 3 * (1 + ?y1 / 4)))" by simp
  also have "\<dots> \<le> exp ?y1 - 1" by (rule exp_small_lower) simp
  also have "\<dots> \<le> exp ((1 - r) * 0.94) - 1" using assms by simp
  finally show "0.083588 \<le> exp ((1 - r) * 0.94) - 1" .
  have "exp ((1 - r) * 0.94) - 1 \<le> exp ?y2 - 1" using assms by simp
  also have "\<dots> \<le> (1 + ?y2 * (1 + ?y2 / 2 * (1 + ?y2 / 3 * (1 + ?y2 / 4)))) / (1 - ?y2 ^ 5 / 120) - 1"
    by (rule exp_small_upper) (simp_all add: power_divide)
  also have "\<dots> \<le> 0.083590" by (simp add: power_divide)
  finally show "exp ((1 - r) * 0.94) - 1 \<le> 0.083590" .
qed

lemma growth_factor_24:
  "0.098559 \<le> exp ((1 - 0.9) * 0.94 :: real) - 1" "exp ((1 - 0.9) * 0.94 :: real) - 1 \<le> 0.098561"
proof -
  let ?y = "(1 - 0.9) * 0.94 :: real"
  have "0.098559 \<le> ?y * (1 + ?y / 2 * (1 + ?y / 3 * (1 + ?y / 4)))" by simp
  also have "\<dots> \<le> exp ?y - 1" by (rule exp_small_lower) simp
  finally show "0.098559 \<le> exp ?y - 1" .
  have "exp ?y - 1 \<le> (1 + ?y * (1 + ?y / 2 * (1 + ?y / 3 * (1 + ?y / 4)))) / (1 - ?y ^ 5 / 120) - 1"
    by (rule exp_small_upper) (simp_all add: power_divide)
  also have "\<dots> \<le> 0.098561" by (simp add: power_divide)
  finally show "exp ?y - 1 \<le> 0.098561" .
qed

section \<open>The reference scenario\<close>

lemma newCard_default_GOOD:
  "newCard (createDeck None) GOOD = \<lparr>D = Fin 4.93, S = Fin 2.4, I = Fin 2.4\<rparr>"
  by (simp add: newCard_def createDeck_default initialDifficulty_def initialStability_def
      DEFAULT_W_index clamp_Fin GOOD_def nextInterval_reference Let_def)

lemma nextDifficulty_default_EASY: "nextDifficulty DEFAULT_W (Fin 4.93) EASY = Fin 4.0786"
  by (simp add: nextDifficulty_def initialDifficulty_def DEFAULT_W_index clamp_Fin EASY_def)

lemma gradeCard_default_EASY:
  fixes c :: "'a DifficultyAndStability_scheme"
  assumes "D c = Fin 4.93" "S c = Fin 2.4" "0 \<le> t"
  shows "gradeCard (createDeck None) c (Fin t) EASY =
     (let v = 2.4 * (1 + exp 1.49 * (11 - 4.0786) * 2.4 powr (- 0.14)
                 * (exp ((1 - (1 + 19 / 81 * (t / 2.4)) powr (- (1 / 2))) * 0.94) - 1) * 2.61)
      in \<lparr>D = Fin 4.0786, S = Fin v, I = Fin v\<rparr>)"
proof -
  have r: "retrievability (Fin t) (Fin 2.4) = Fin ((1 + 19 / 81 * (t / 2.4)) powr (- (1 / 2)))"
    by (rule retrievability_Fin) (use assms in simp_all)
  have s: "nextStabilityAfterRecall DEFAULT_W (Fin 4.0786) (Fin 2.4)
             (Fin ((1 + 19 / 81 * (t / 2.4)) powr (- (1 / 2)))) EASY =
           Fin (2.4 * (1 + exp 1.49 * (11 - 4.0786) * 2.4 powr (- 0.14)
                 * (exp ((1 - (1 + 19 / 81 * (t / 2.4)) powr (- (1 / 2))) * 0.94) - 1) * 2.61))"
    by (simp add: recall_default_Fin EASY_def)
  have ne: "(EASY = AGAIN) = False" by (simp add: EASY_def AGAIN_def)
  show ?thesis
    unfolding gradeCard_def createDeck_default Let_def assms(1,2)
    by (simp only: Deck.select_convs ne if_False nextDifficulty_default_EASY r s
        nextInterval_reference)
qed

lemma retr_reference: "(1 + 19 / 81 * (2.4 / 2.4)) powr (- (1 / 2)) = (0.9::real)"
proof -
  have "Fin ((1 + 19 / 81 * (2.4 / 2.4)) powr (- (1 / 2))) = Fin 0.9"
    using retrievability_Fin [of "2.4" "2.4"] retrievability_at_stability [of "2.4"] by simp
  then show ?thesis by simp
qed

lemma easy_after_2_days:
  "\<exists>v. gradeCard (createDeck None) (newCard (createDeck None) GOOD) (Fin 2) EASY
          = \<lparr>D = Fin 4.0786, S = Fin v, I = Fin v\<rparr> \<and> 16.625 < v \<and> v < 16.626"
proof -
  let ?x = "exp ((1 - (1 + 19 / 81 * (2 / 2.4)) powr (- (1 / 2))) * 0.94) - (1::real)"
  let ?v = "2.4 * (1 + exp 1.49 * (11 - 4.0786) * 2.4 powr (- 0.14) * ?x * 2.61) :: real"
  have x1: "0.083588 \<le> ?x" and x2: "?x \<le> 0.083590"
    using growth_factor_2 [OF retr_2_lower retr_2_upper] by simp_all
  have "2.4 * (1 + 4.437095 * (11 - 4.0786) * 0.884647 * 0.083588 * 2.61) \<le> ?v"
    by (rule growth_bounds(1) [OF exp_149_lower exp_149_upper powr_24_lower powr_24_upper _ x1 x2])
      simp
  moreover have "(16.625::real) < 2.4 * (1 + 4.437095 * (11 - 4.0786) * 0.884647 * 0.083588 * 2.61)"
    by simp
  ultimately have lo: "16.625 < ?v" by (rule less_le_trans [rotated])
  have "?v \<le> 2.4 * (1 + 4.437096 * (11 - 4.0786) * 0.884648 * 0.083590 * 2.61)"
    by (rule growth_bounds(2) [OF exp_149_lower exp_149_upper powr_24_lower powr_24_upper _ x1 x2])
      simp
  moreover have "2.4 * (1 + 4.437096 * (11 - 4.0786) * 0.884648 * 0.083590 * 2.61) < (16.626::real)"
    by simp
  ultimately have hi: "?v < 16.626" by (rule le_less_trans)
  have "gradeCard (createDeck None) (newCard (createDeck None) GOOD) (Fin 2) EASY
          = \<lparr>D = Fin 4.0786, S = Fin ?v, I = Fin ?v\<rparr>"
    using gradeCard_default_EASY [of "newCard (createDeck None) GOOD" 2]
    by (simp add: newCard_default_GOOD Let_def)
  then show ?thesis using lo hi by blast
qed

lemma easy_after_2_4_days:
  "\<exists>v. gradeCard (createDeck None) (newCard (createDeck None) GOOD) (Fin 2.4) EASY
          = \<lparr>D = Fin 4.0786, S = Fin v, I = Fin v\<rparr> \<and> 19.172 < v \<and> v < 19.174"
proof -
  let ?x = "exp ((1 - (1 + 19 / 81 * (2.4 / 2.4)) powr (- (1 / 2))) * 0.94) - (1::real)"
  let ?v = "2.4 * (1 + exp 1.49 * (11 - 4.0786) * 2.4 powr (- 0.14) * ?x * 2.61) :: real"
  have x1: "0.098559 \<le> ?x" and x2: "?x \<le> 0.098561"
    unfolding retr_reference using growth_factor_24 by simp_all
  have "2.4 * (1 + 4.437095 * (11 - 4.0786) * 0.884647 * 0.098559 * 2.61) \<le> ?v"
    by (rule growth_bounds(1) [OF exp_149_lower exp_149_upper powr_24_lower powr_24_upper _ x1 x2])
      simp
  moreover have "(19.172::real) < 2.4 * (1 + 4.437095 * (11 - 4.0786) * 0.884647 * 0.098559 * 2.61)"
    by simp
  ultimately have lo: "19.172 < ?v" by (rule less_le_trans [rotated])
  have "?v \<le> 2.4 * (1 + 4.437096 * (11 - 4.0786) * 0.884648 * 0.098561 * 2.61)"
    by (rule growth_bounds(2) [OF exp_149_lower exp_149_upper powr_24_lower powr_24_upper _ x1 x2])
      simp
  moreover have "2.4 * (1 + 4.437096 * (11 - 4.0786) * 0.884648 * 0.098561 * 2.61) < (19.174::real)"
    by simp
  ultimately have hi: "?v < 19.174" by (rule le_less_trans)
  have "gradeCard (createDeck None) (newCard (createDeck None) GOOD) (Fin 2.4) EASY
          = \<lparr>D = Fin 4.0786, S = Fin ?v, I = Fin ?v\<rparr>"
    using gradeCard_default_EASY [of "newCard (createDeck None) GOOD" "2.4"]
    by (simp add: newCard_default_GOOD Let_def)
  then show ?thesis using lo hi by blast
qed

text \<open>
  Claim C3, amended.  With the default configuration \<^verbatim>\<open>newCard(GOOD)\<close> has
  \<open>D = 4.93\<close>, \<open>S = 2.4\<close> and an interval of about \<open>2.4\<close> days (between
  \<open>2.3999\<close> and \<open>2.4001\<close>).  Grading that card \<open>EASY\<close> after \<open>2\<close> days, as
  the README does, gives an interval between \<open>16.625\<close> and \<open>16.635\<close>, which prints
  as \<open>16.63\<close>; after \<open>2.4\<close> days the interval lies between \<open>19.17\<close> and
  \<open>19.18\<close>.
\<close>

theorem reference_scenario:
  "D (newCard (createDeck None) GOOD) = Fin 4.93
   \<and> S (newCard (createDeck None) GOOD) = Fin 2.4
   \<and> js_less (Fin 2.3999) (I (newCard (createDeck None) GOOD))
   \<and> js_less (I (newCard (createDeck None) GOOD)) (Fin 2.4001)
   \<and> js_less (Fin 16.625) (I (gradeCard (createDeck None) (newCard (createDeck None) GOOD) (Fin 2) EASY))
   \<and> js_less (I (gradeCard (createDeck None) (newCard (createDeck None) GOOD) (Fin 2) EASY)) (Fin 16.635)
   \<and> js_less (Fin 19.17) (I (gradeCard (createDeck None) (newCard (createDeck None) GOOD) (Fin 2.4) EASY))
   \<and> js_less (I (gradeCard (createDeck None) (newCard (createDeck None) GOOD) (Fin 2.4) EASY)) (Fin 19.18)"
proof -
  obtain v where v: "gradeCard (createDeck None) (newCard (createDeck None) GOOD) (Fin 2) EASY
          = \<lparr>D = Fin 4.0786, S = Fin v, I = Fin v\<rparr>" "16.625 < v" "v < 16.626"
    using easy_after_2_days by blast
  obtain u where u: "gradeCard (createDeck None) (newCard (createDeck None) GOOD) (Fin 2.4) EASY
          = \<lparr>D = Fin 4.0786, S = Fin u, I = Fin u\<rparr>" "19.172 < u" "u < 19.174"
    using easy_after_2_4_days by blast
  show ?thesis unfolding v(1) u(1) using v(2,3) u(2,3) by (simp add: newCard_default_GOOD)
qed

text \<open>
  Counterexample to claim C3 as it is stated: after \<open>2.4\<close> days the interval is above
  \<open>19\<close> days, not about \<open>16.63\<close>.
\<close>

theorem reference_scenario_counterexample:
  "js_less (Fin 19)
     (I (gradeCard (createDeck None) (newCard (createDeck None) GOOD) (Fin 2.4) EASY))"
proof -
  obtain u where u: "gradeCard (createDeck None) (newCard (createDeck None) GOOD) (Fin 2.4) EASY
          = \<lparr>D = Fin 4.0786, S = Fin u, I = Fin u\<rparr>" "19.172 < u" "u < 19.174"
    using easy_after_2_4_days by blast
  show ?thesis unfolding u(1) using u(2) by simp
qed

section \<open>Grading a card\<close>

lemma grades_distinct:
  "AGAIN \<noteq> HARD" "AGAIN \<noteq> GOOD" "AGAIN \<noteq> EASY" "HARD \<noteq> GOOD" "HARD \<noteq> EASY" "GOOD \<noteq> EASY"
  by (simp_all add: AGAIN_def HARD_def GOOD_def EASY_def)

text \<open>
  Claim C1.  For every deck, card, elapsed time \<open>t\<close> and grade \<open>g\<close> among the four
  grades, \<^verbatim>\<open>gradeCard\<close> returns the card made of \<open>d' = nextDifficulty (D c) g\<close>, of
  the stability \<open>s'\<close> computed from \<open>d'\<close>, the old stability and the retrievability
  \<open>r = retrievability t (S c)\<close> of the old stability (by the forgetting formula when
  \<open>g = AGAIN\<close>, by the recall formula otherwise), and of the interval
  \<open>nextInterval\<close> of the deck's retention and \<open>s'\<close>.  A grade is \<open>AGAIN\<close> or one of
  \<open>HARD\<close>, \<open>GOOD\<close>, \<open>EASY\<close>, never both.
\<close>

theorem gradeCard_composition:
  fixes c :: "'a DifficultyAndStability_scheme"
  assumes "g \<in> {AGAIN, HARD, GOOD, EASY}"
  shows "(let r = retrievability t (S c);
              d' = nextDifficulty (weights dk) (D c) g;
              s' = (if g = AGAIN then nextStabilityAfterForgetting (weights dk) d' (S c) r
                    else nextStabilityAfterRecall (weights dk) d' (S c) r g)
          in gradeCard dk c t g = \<lparr>D = d', S = s', I = nextInterval (retention dk) s'\<rparr>)
       \<and> ((g = AGAIN) \<noteq> (g \<in> {HARD, GOOD, EASY}))"
  using assms grades_distinct by (auto simp add: gradeCard_def Let_def)

theorem gradeCard_composition_witness:
  "(let c = \<lparr>D = Fin 4.93, S = Fin 2.4, I = Fin 2.4\<rparr>;
        dk = createDeck None;
        r = retrievability (Fin 2) (S c);
        d' = nextDifficulty (weights dk) (D c) EASY;
        s' = nextStabilityAfterRecall (weights dk) d' (S c) r EASY
    in gradeCard dk c (Fin 2) EASY = \<lparr>D = d', S = s', I = nextInterval (retention dk) s'\<rparr>)"
  using gradeCard_composition [of EASY "Fin 2" "\<lparr>D = Fin 4.93, S = Fin 2.4, I = Fin 2.4\<rparr>"
      "createDeck None"] grades_distinct
  by (simp add: Let_def)

text \<open>
  Claim C9.  Two cards with the same \<open>D\<close> and the same \<open>S\<close>, whatever else they
  carry (an interval \<open>I\<close>, or no such field at all), are graded to the same card.
\<close>

theorem gradeCard_ignores_interval:
  fixes c1 :: "'a DifficultyAndStability_scheme" and c2 :: "'b DifficultyAndStability_scheme"
  assumes "D c1 = D c2" "S c1 = S c2"
  shows "gradeCard dk c1 t g = gradeCard dk c2 t g"
  unfolding gradeCard_def assms ..

theorem gradeCard_ignores_interval_witness:
  "gradeCard (createDeck None) \<lparr>D = Fin 5, S = Fin 3, I = Fin 1\<rparr> (Fin 2) GOOD
     = gradeCard (createDeck None) \<lparr>D = Fin 5, S = Fin 3, I = Fin 100\<rparr> (Fin 2) GOOD"
  using gradeCard_ignores_interval
    [of "\<lparr>D = Fin 5, S = Fin 3, I = Fin 1\<rparr>" "\<lparr>D = Fin 5, S = Fin 3, I = Fin 100\<rparr>"]
  by simp





section \<open>Configuration fallbacks\<close>

text \<open>
  Claim C4, amended.  A falsy retention rate (zero, \<^verbatim>\<open>NaN\<close> or an absent field) is
  replaced by the default \<open>0.9\<close> and a truthy one is kept; an absent weight vector is
  replaced by the reference vector, while an array that is given, the empty array included,
  is kept as it is.  A configuration with retention rate zero and no weight vector gives
  the same deck as no configuration at all.
\<close>

theorem createDeck_fallbacks:
  "(\<not> truthy r \<longrightarrow>
      retention (createDeck (Some \<lparr>requestedRetentionRate = r, w = ws\<rparr>)) = Fin 0.9)
   \<and> (truthy r \<longrightarrow>
      retention (createDeck (Some \<lparr>requestedRetentionRate = r, w = ws\<rparr>)) = r)
   \<and> weights (createDeck (Some \<lparr>requestedRetentionRate = r, w = None\<rparr>)) = DEFAULT_W
   \<and> weights (createDeck (Some \<lparr>requestedRetentionRate = r, w = Some a\<rparr>)) = a
   \<and> createDeck (Some \<lparr>requestedRetentionRate = Fin 0, w = None\<rparr>) = createDeck None"
  by (simp add: createDeck_def DEFAULT_PARAMS_def)

theorem createDeck_fallbacks_witness:
  "retention (createDeck (Some \<lparr>requestedRetentionRate = Fin 0, w = Some []\<rparr>)) = Fin 0.9
   \<and> retention (createDeck (Some \<lparr>requestedRetentionRate = Fin 0.8, w = Some []\<rparr>)) = Fin 0.8
   \<and> weights (createDeck (Some \<lparr>requestedRetentionRate = Fin 0, w = Some []\<rparr>)) = []
   \<and> createDeck (Some \<lparr>requestedRetentionRate = Fin 0, w = None\<rparr>) = createDeck None"
  using createDeck_fallbacks [of "Fin 0" "Some []" "[]"]
    createDeck_fallbacks [of "Fin 0.8" "Some []" "[]"]
  by simp

text \<open>
  Counterexample to claim C4 as it is stated: with retention rate zero and an empty weight
  vector the new card of grade \<open>GOOD\<close> is not the one of the default deck (its difficulty
  is \<^verbatim>\<open>NaN\<close>, because every weight reads as \<^verbatim>\<open>undefined\<close>).
\<close>

theorem createDeck_empty_weights_counterexample:
  "newCard (createDeck (Some \<lparr>requestedRetentionRate = Fin 0, w = Some []\<rparr>)) GOOD
     \<noteq> newCard (createDeck None) GOOD"
proof -
  have "D (newCard (createDeck (Some \<lparr>requestedRetentionRate = Fin 0, w = Some []\<rparr>)) GOOD) = NaN"
    by (simp add: newCard_def createDeck_def DEFAULT_PARAMS_def initialDifficulty_def
        js_index_def js_max_def js_min_def Let_def)
  moreover have "D (newCard (createDeck None) GOOD) = Fin 4.93"
    by (simp add: newCard_default_GOOD)
  ultimately show ?thesis by auto
qed

section \<open>Inputs outside the domain\<close>

lemma js_mul_NaN [simp]: "js_mul x NaN = NaN" "js_mul NaN x = NaN"
  by (cases x; simp)+

lemma js_add_NaN [simp]: "js_add x NaN = NaN" "js_add NaN x = NaN"
  by (cases x; simp)+

lemma js_sub_NaN [simp]: "js_sub x NaN = NaN" "js_sub NaN x = NaN"
  by (simp_all add: js_sub_def)

lemma js_div_NaN [simp]: "js_div NaN x = NaN"
  by (cases x; simp)











end
